theory Spec2Isabelle
  imports Complex_Main
begin

section \<open>Python values, errors and strings\<close>

text \<open>
  The engine is the two modules \<^verbatim>\<open>models/fair_model.py\<close> and
  \<^verbatim>\<open>models/monte_carlo.py\<close>. Python's \<^verbatim>\<open>float\<close> is idealised as \<^typ>\<open>real\<close>:
  rounding, infinities and NaN inputs are outside the model. Python's \<^verbatim>\<open>int\<close> is
  \<^typ>\<open>int\<close>, \<^verbatim>\<open>str\<close> is \<^typ>\<open>string\<close>, \<^verbatim>\<open>Optional[float]\<close> is \<^typ>\<open>real option\<close>.
  Every \<^verbatim>\<open>raise\<close> is a value \<open>Inl e\<close> of a sum type.
\<close>

datatype error =
    ValueError string
  | TypeError string
  | KeyError string
  | AttributeError string
  | ZeroDivisionError

text \<open>Sequencing of calls that may raise: the first exception ends the computation.\<close>

definition and_then :: "error + 'a \<Rightarrow> ('a \<Rightarrow> error + 'b) \<Rightarrow> error + 'b" where
  "and_then r f = (case r of Inl e \<Rightarrow> Inl e | Inr x \<Rightarrow> f x)"

text \<open>
  The plain key-value structure \<^verbatim>\<open>to_dict\<close> builds and \<^verbatim>\<open>from_dict\<close> reads: \<^verbatim>\<open>None\<close>,
  numbers, strings, and dicts with string keys (in insertion order).
\<close>

datatype pyval =
    PNone
  | PFloat real
  | PStr string
  | PDict "(string \<times> pyval) list"

text \<open>\<^verbatim>\<open>d[k]\<close>: a missing key raises \<^verbatim>\<open>KeyError\<close>, a non-dict operand \<^verbatim>\<open>TypeError\<close>.\<close>

fun subscript :: "pyval \<Rightarrow> string \<Rightarrow> error + pyval" where
  "subscript (PDict kvs) k =
     (case map_of kvs k of None \<Rightarrow> Inl (KeyError k) | Some v \<Rightarrow> Inr v)"
| "subscript v k = Inl (TypeError ''object is not subscriptable'')"

text \<open>Truth value of an object in a condition.\<close>

fun truthy :: "pyval \<Rightarrow> bool" where
  "truthy PNone = False"
| "truthy (PFloat x) = (x \<noteq> 0)"
| "truthy (PStr s) = (s \<noteq> [])"
| "truthy (PDict kvs) = (kvs \<noteq> [])"

text \<open>
  Reading a dynamically typed value at the type the dataclass field declares. A value of
  another type is rejected with \<^verbatim>\<open>TypeError\<close> (for the bounds this is what the comparisons
  in \<^verbatim>\<open>__post_init__\<close> raise; for the other fields the typed record excludes the input).
  The model of \<^verbatim>\<open>from_dict\<close> is therefore that of the code on dicts whose fields have the
  declared types, which are the dicts \<^verbatim>\<open>to_dict\<close> produces. On a dict with an ill-typed
  field it answers \<^verbatim>\<open>TypeError\<close> before the constructor runs, where the code would raise
  the constructor's \<^verbatim>\<open>ValueError\<close> first or return an object holding the ill-typed value;
  nothing below is stated about such dicts.
\<close>

fun as_float :: "pyval \<Rightarrow> error + real" where
  "as_float (PFloat x) = Inr x"
| "as_float v = Inl (TypeError ''a number is required'')"

fun as_optional_float :: "pyval \<Rightarrow> error + real option" where
  "as_optional_float PNone = Inr None"
| "as_optional_float (PFloat x) = Inr (Some x)"
| "as_optional_float v = Inl (TypeError ''a number or None is required'')"

fun as_str :: "pyval \<Rightarrow> error + string" where
  "as_str (PStr s) = Inr s"
| "as_str v = Inl (TypeError ''a str is required'')"

text \<open>
  \<^verbatim>\<open>str.lower()\<close> on the ASCII letters. Bytes outside \<open>A..Z\<close> are left as they are;
  none of the four kind names the sampler compares against can be produced from a
  non-ASCII letter, so the dispatch below agrees with Python's on every string.
\<close>

definition ascii_uppercase :: string where
  "ascii_uppercase = ''ABCDEFGHIJKLMNOPQRSTUVWXYZ''"

definition ascii_lowercase :: string where
  "ascii_lowercase = ''abcdefghijklmnopqrstuvwxyz''"

definition lower_char :: "char \<Rightarrow> char" where
  "lower_char c =
     (case map_of (zip ascii_uppercase ascii_lowercase) c of
        Some d \<Rightarrow> d
      | None \<Rightarrow> c)"

definition lower :: "string \<Rightarrow> string" where
  "lower s = map lower_char s"

section \<open>Risk-factor inputs (\<^verbatim>\<open>fair_model.py\<close>, lines 6-56)\<close>

text \<open>
  \<^verbatim>\<open>TEFInput\<close>, \<^verbatim>\<open>VulnerabilityInput\<close> and \<^verbatim>\<open>LossInput\<close> are dataclasses with the
  same four fields; they differ in \<^verbatim>\<open>__post_init__\<close> only. One record carries the
  fields, one constructor per class runs the generated \<^verbatim>\<open>__init__\<close> followed by that
  class's \<^verbatim>\<open>__post_init__\<close>.
\<close>

record input_params =
  min_value :: real
  max_value :: real
  most_likely :: "real option"
  distribution :: string

definition TEFInput_post_init :: "input_params \<Rightarrow> error + input_params" where
  "TEFInput_post_init self =
     (if min_value self < 0 then
        Inl (ValueError ''Minimum value cannot be negative'')
      else if max_value self < min_value self then
        Inl (ValueError ''Maximum value must be greater than minimum value'')
      else if distribution self \<in> set [''triangular'', ''pert''] \<and> most_likely self = None then
        Inr (self\<lparr>most_likely := Some ((min_value self + max_value self) / 2)\<rparr>)
      else Inr self)"

definition TEFInput :: "real \<Rightarrow> real \<Rightarrow> real option \<Rightarrow> string \<Rightarrow> error + input_params" where
  "TEFInput mn mx ml d =
     TEFInput_post_init \<lparr>min_value = mn, max_value = mx, most_likely = ml, distribution = d\<rparr>"

definition VulnerabilityInput_post_init :: "input_params \<Rightarrow> error + input_params" where
  "VulnerabilityInput_post_init self =
     (if \<not> (0 \<le> min_value self \<and> min_value self \<le> 1) then
        Inl (ValueError ''Minimum probability must be between 0 and 1'')
      else if \<not> (0 \<le> max_value self \<and> max_value self \<le> 1) then
        Inl (ValueError ''Maximum probability must be between 0 and 1'')
      else if max_value self < min_value self then
        Inl (ValueError ''Maximum value must be greater than minimum value'')
      else if distribution self \<in> set [''triangular'', ''pert''] \<and> most_likely self = None then
        Inr (self\<lparr>most_likely := Some ((min_value self + max_value self) / 2)\<rparr>)
      else Inr self)"

definition VulnerabilityInput ::
  "real \<Rightarrow> real \<Rightarrow> real option \<Rightarrow> string \<Rightarrow> error + input_params" where
  "VulnerabilityInput mn mx ml d =
     VulnerabilityInput_post_init
       \<lparr>min_value = mn, max_value = mx, most_likely = ml, distribution = d\<rparr>"

definition LossInput_post_init :: "input_params \<Rightarrow> error + input_params" where
  "LossInput_post_init self =
     (if min_value self < 0 then
        Inl (ValueError ''Minimum value cannot be negative'')
      else if max_value self < min_value self then
        Inl (ValueError ''Maximum value must be greater than minimum value'')
      else if distribution self \<in> set [''triangular'', ''pert''] \<and> most_likely self = None then
        Inr (self\<lparr>most_likely := Some ((min_value self + max_value self) / 2)\<rparr>)
      else Inr self)"

definition LossInput :: "real \<Rightarrow> real \<Rightarrow> real option \<Rightarrow> string \<Rightarrow> error + input_params" where
  "LossInput mn mx ml d =
     LossInput_post_init \<lparr>min_value = mn, max_value = mx, most_likely = ml, distribution = d\<rparr>"

text \<open>Whether a constructor call raised, and whether it raised a \<^verbatim>\<open>ValueError\<close>.\<close>

fun is_ValueError :: "error + 'a \<Rightarrow> bool" where
  "is_ValueError (Inl (ValueError msg)) = True"
| "is_ValueError r = False"

section \<open>The FAIR model (\<^verbatim>\<open>fair_model.py\<close>, lines 59-157)\<close>

record FAIRModel =
  name :: string
  description :: string
  tef :: "input_params option"
  vulnerability :: "input_params option"
  loss_magnitude :: "input_params option"

definition FAIRModel_init :: "string \<Rightarrow> string \<Rightarrow> FAIRModel" where
  "FAIRModel_init nm descr =
     \<lparr>name = nm, description = descr, tef = None, vulnerability = None, loss_magnitude = None\<rparr>"

definition set_threat_event_frequency :: "FAIRModel \<Rightarrow> input_params \<Rightarrow> FAIRModel" where
  "set_threat_event_frequency self t = self\<lparr>tef := Some t\<rparr>"

definition set_vulnerability :: "FAIRModel \<Rightarrow> input_params \<Rightarrow> FAIRModel" where
  "set_vulnerability self v = self\<lparr>vulnerability := Some v\<rparr>"

definition set_loss_magnitude :: "FAIRModel \<Rightarrow> input_params \<Rightarrow> FAIRModel" where
  "set_loss_magnitude self l = self\<lparr>loss_magnitude := Some l\<rparr>"

definition validate_inputs :: "FAIRModel \<Rightarrow> error + bool" where
  "validate_inputs self =
     (if tef self = None then Inl (ValueError ''Threat Event Frequency not set'')
      else if vulnerability self = None then Inl (ValueError ''Vulnerability not set'')
      else if loss_magnitude self = None then Inl (ValueError ''Loss Magnitude not set'')
      else Inr True)"

text \<open>
  The dict literal \<^verbatim>\<open>to_dict\<close> writes for a populated slot. A dataclass instance defines
  neither \<^verbatim>\<open>__bool__\<close> nor \<^verbatim>\<open>__len__\<close>, so \<^verbatim>\<open>... if self.tef else None\<close> takes the first
  branch exactly when the slot is not \<^verbatim>\<open>None\<close>.
\<close>

definition input_to_dict :: "input_params \<Rightarrow> pyval" where
  "input_to_dict p =
     PDict [(''min_value'', PFloat (min_value p)),
            (''max_value'', PFloat (max_value p)),
            (''most_likely'', (case most_likely p of None \<Rightarrow> PNone | Some x \<Rightarrow> PFloat x)),
            (''distribution'', PStr (distribution p))]"

definition to_dict :: "FAIRModel \<Rightarrow> pyval" where
  "to_dict self =
     PDict [(''name'', PStr (name self)),
            (''description'', PStr (description self)),
            (''tef'', (case tef self of None \<Rightarrow> PNone | Some p \<Rightarrow> input_to_dict p)),
            (''vulnerability'',
               (case vulnerability self of None \<Rightarrow> PNone | Some p \<Rightarrow> input_to_dict p)),
            (''loss_magnitude'',
               (case loss_magnitude self of None \<Rightarrow> PNone | Some p \<Rightarrow> input_to_dict p))]"

text \<open>
  The constructor call \<^verbatim>\<open>C(min_value=d["min_value"], max_value=d["max_value"],
  most_likely=d["most_likely"], distribution=d["distribution"])\<close> of \<^verbatim>\<open>from_dict\<close>: the four
  lookups in order, then the constructor with its \<^verbatim>\<open>__post_init__\<close>.
\<close>

definition input_from_dict ::
  "(real \<Rightarrow> real \<Rightarrow> real option \<Rightarrow> string \<Rightarrow> error + input_params) \<Rightarrow> pyval
     \<Rightarrow> error + input_params" where
  "input_from_dict C d =
     and_then (subscript d ''min_value'') (\<lambda>mn.
     and_then (subscript d ''max_value'') (\<lambda>mx.
     and_then (subscript d ''most_likely'') (\<lambda>ml.
     and_then (subscript d ''distribution'') (\<lambda>dist.
     and_then (as_float mn) (\<lambda>mn.
     and_then (as_float mx) (\<lambda>mx.
     and_then (as_optional_float ml) (\<lambda>ml.
     and_then (as_str dist) (\<lambda>dist. C mn mx ml dist))))))))"

definition from_dict :: "pyval \<Rightarrow> error + FAIRModel" where
  "from_dict data =
     and_then (subscript data ''name'') (\<lambda>nm.
     and_then (subscript data ''description'') (\<lambda>descr.
     and_then (as_str nm) (\<lambda>nm.
     and_then (as_str descr) (\<lambda>descr.
     and_then (Inr (FAIRModel_init nm descr)) (\<lambda>model.
     and_then (subscript data ''tef'') (\<lambda>t.
     and_then
       (if truthy t then
          and_then (input_from_dict TEFInput t) (\<lambda>p. Inr (set_threat_event_frequency model p))
        else Inr model) (\<lambda>model.
     and_then (subscript data ''vulnerability'') (\<lambda>v.
     and_then
       (if truthy v then
          and_then (input_from_dict VulnerabilityInput v) (\<lambda>p. Inr (set_vulnerability model p))
        else Inr model) (\<lambda>model.
     and_then (subscript data ''loss_magnitude'') (\<lambda>l.
     and_then
       (if truthy l then
          and_then (input_from_dict LossInput l) (\<lambda>p. Inr (set_loss_magnitude model p))
        else Inr model) (\<lambda>model.
     Inr model)))))))))))"

text \<open>
  A slot value that its class's constructor produces: constructing again from its own
  four fields gives it back. Every instance a constructor has returned satisfies this,
  and so does one whose unset most-likely value the sampler has filled in.
\<close>

definition constructed ::
  "(real \<Rightarrow> real \<Rightarrow> real option \<Rightarrow> string \<Rightarrow> error + input_params) \<Rightarrow> input_params option
     \<Rightarrow> bool" where
  "constructed C slot =
     (case slot of
        None \<Rightarrow> True
      | Some p \<Rightarrow> C (min_value p) (max_value p) (most_likely p) (distribution p) = Inr p)"

definition well_formed :: "FAIRModel \<Rightarrow> bool" where
  "well_formed m \<longleftrightarrow>
     constructed TEFInput (tef m) \<and>
     constructed VulnerabilityInput (vulnerability m) \<and>
     constructed LossInput (loss_magnitude m)"

section \<open>The random source and the array library\<close>

text \<open>
  \<^verbatim>\<open>numpy.random\<close> is not code of this repository. Its four samplers are a parameter of
  the model: each takes the distribution's arguments, the requested size and the state
  \<open>'g\<close> of the ambient generator, and either raises or returns the drawn values with
  the advanced generator state.
\<close>

record 'g numpy_random =
  uniform :: "real \<Rightarrow> real \<Rightarrow> int \<Rightarrow> 'g \<Rightarrow> error + real list \<times> 'g"
  triangular :: "real \<Rightarrow> real \<Rightarrow> real \<Rightarrow> int \<Rightarrow> 'g \<Rightarrow> error + real list \<times> 'g"
  beta :: "real \<Rightarrow> real \<Rightarrow> int \<Rightarrow> 'g \<Rightarrow> error + real list \<times> 'g"
  lognormal :: "real \<Rightarrow> real \<Rightarrow> int \<Rightarrow> 'g \<Rightarrow> error + real list \<times> 'g"

text \<open>
  What the engine relies on from the library, as NumPy documents it: a call with a
  non-negative size and admissible arguments returns exactly \<open>size\<close> values.
  \<^verbatim>\<open>uniform\<close> accepts any bounds; \<^verbatim>\<open>triangular\<close> needs \<open>left \<le> mode \<le> right\<close> and
  \<open>left < right\<close>; \<^verbatim>\<open>beta\<close> needs positive shape parameters; \<^verbatim>\<open>lognormal\<close> needs a
  non-negative \<open>sigma\<close>.
\<close>

definition returns_sized :: "(int \<Rightarrow> 'g \<Rightarrow> error + real list \<times> 'g) \<Rightarrow> bool" where
  "returns_sized f \<longleftrightarrow>
     (\<forall>n g. 0 \<le> n \<longrightarrow> (\<exists>xs g'. f n g = Inr (xs, g') \<and> length xs = nat n))"

definition numpy_contract :: "'g numpy_random \<Rightarrow> bool" where
  "numpy_contract np \<longleftrightarrow>
     (\<forall>lo hi. returns_sized (uniform np lo hi)) \<and>
     (\<forall>l m r. l \<le> m \<and> m \<le> r \<and> l < r \<longrightarrow> returns_sized (triangular np l m r)) \<and>
     (\<forall>a b. 0 < a \<and> 0 < b \<longrightarrow> returns_sized (beta np a b)) \<and>
     (\<forall>mu sigma. 0 \<le> sigma \<longrightarrow> returns_sized (lognormal np mu sigma))"

text \<open>\<^verbatim>\<open>np.ones(size)\<close>; a negative size raises.\<close>

definition np_ones :: "int \<Rightarrow> error + real list" where
  "np_ones sz =
     (if sz < 0 then Inl (ValueError ''negative dimensions are not allowed'')
      else Inr (replicate (nat sz) 1))"

text \<open>
  \<^verbatim>\<open>a * b\<close> on one-dimensional arrays: element by element, an array of length one being
  broadcast; any other mismatch of lengths raises.
\<close>

definition np_multiply :: "real list \<Rightarrow> real list \<Rightarrow> error + real list" where
  "np_multiply xs ys =
     (if length xs = length ys then Inr (map2 (*) xs ys)
      else if length xs = 1 then Inr (map (\<lambda>y. hd xs * y) ys)
      else if length ys = 1 then Inr (map (\<lambda>x. x * hd ys) xs)
      else Inl (ValueError ''operands could not be broadcast together''))"

section \<open>The sampler (\<^verbatim>\<open>monte_carlo.py\<close>, lines 21-87)\<close>

text \<open>
  The sampler's outcome is the value returned or the exception raised, together with
  the parameter object as the call leaves it (the PERT branch assigns to
  \<^verbatim>\<open>param.most_likely\<close>) and the generator state.
\<close>

type_synonym 'g sample_outcome = "(error + real list) \<times> input_params \<times> 'g"

definition drawn :: "input_params \<Rightarrow> 'g \<Rightarrow> error + real list \<times> 'g \<Rightarrow> 'g sample_outcome" where
  "drawn param g r =
     (case r of Inl e \<Rightarrow> (Inl e, param, g) | Inr (xs, g') \<Rightarrow> (Inr xs, param, g'))"

definition constant_sample :: "int \<Rightarrow> real \<Rightarrow> error + real list" where
  "constant_sample sz c = and_then (np_ones sz) (\<lambda>ones. Inr (map (\<lambda>one. one * c) ones))"

text \<open>The body of the \<^verbatim>\<open>elif distribution == "pert"\<close> branch (lines 36-69).\<close>

definition pert_sample ::
  "'g numpy_random \<Rightarrow> input_params \<Rightarrow> int \<Rightarrow> 'g \<Rightarrow> 'g sample_outcome" where
  "pert_sample np param sz g =
     (let param =
        (if most_likely param = None then
           param\<lparr>most_likely := Some ((min_value param + max_value param) / 2)\<rparr>
         else param);
        range_val = max_value param - min_value param
      in
      if range_val = 0 then (constant_sample sz (min_value param), param, g)
      else
        (case most_likely param of
           None \<Rightarrow> (Inl (TypeError ''unsupported operand type(s) for *''), param, g)
         | Some ml \<Rightarrow>
            (let mu = (min_value param + 4 * ml + max_value param) / 6 in
             if mu = min_value param \<or> mu = max_value param then
               (constant_sample sz mu, param, g)
             else
               (let v = (mu - min_value param) * (max_value param - mu) /
                          ((max_value param - min_value param) ^ 2)
                in
                if v = 0 then (Inl ZeroDivisionError, param, g)
                else
                  (let w = ((mu - min_value param) / (max_value param - min_value param)) *
                             ((1 / v) - 1);
                     alpha = w;
                     beta_p = (1 - (mu - min_value param) /
                                     (max_value param - min_value param)) * ((1 / v) - 1)
                   in
                   drawn param g
                     (and_then (beta np alpha beta_p sz g) (\<lambda>(beta_samples, g').
                        Inr (map (\<lambda>b. min_value param + b * range_val) beta_samples,
                             g'))))))))"

definition generate_distribution_sample ::
  "'g numpy_random \<Rightarrow> input_params \<Rightarrow> int \<Rightarrow> 'g \<Rightarrow> 'g sample_outcome" where
  "generate_distribution_sample np param sz g =
     (let dist = lower (distribution param) in
      if dist = ''uniform'' then
        drawn param g (uniform np (min_value param) (max_value param) sz g)
      else if dist = ''triangular'' then
        (case most_likely param of
           None \<Rightarrow> (Inl (TypeError ''float() argument must be a number, not NoneType''), param, g)
         | Some mode \<Rightarrow>
             drawn param g (triangular np (min_value param) mode (max_value param) sz g))
      else if dist = ''pert'' then pert_sample np param sz g
      else if dist = ''lognormal'' then
        (let ln_min = ln (min_value param);
           ln_max = ln (max_value param);
           z_95 = 1645 / 1000;
           sigma = (ln_max - ln_min) / (2 * z_95);
           mu = (ln_min + ln_max) / 2
         in drawn param g (lognormal np mu sigma sz g))
      else
        drawn param g (uniform np (min_value param) (max_value param) sz g))"


section \<open>The simulation (\<^verbatim>\<open>monte_carlo.py\<close>, lines 6-19 and 89-122)\<close>

text \<open>The results \<^verbatim>\<open>DataFrame\<close>: five named columns.\<close>

record results_table =
  TEF :: "real list"
  Vulnerability :: "real list"
  LEF :: "real list"
  Loss_Magnitude :: "real list"
  ALE :: "real list"

text \<open>\<^verbatim>\<open>pd.DataFrame({...})\<close> from a dict of arrays: the arrays must have one length.\<close>

definition DataFrame ::
  "real list \<Rightarrow> real list \<Rightarrow> real list \<Rightarrow> real list \<Rightarrow> real list \<Rightarrow> error + results_table" where
  "DataFrame t v lef lm ale =
     (if length v = length t \<and> length lef = length t \<and> length lm = length t \<and>
         length ale = length t
      then Inr \<lparr>TEF = t, Vulnerability = v, LEF = lef, Loss_Magnitude = lm, ALE = ale\<rparr>
      else Inl (ValueError ''All arrays must be of the same length''))"

definition n_rows :: "results_table \<Rightarrow> nat" where
  "n_rows df = length (TEF df)"

record MonteCarloSimulation =
  fair_model :: FAIRModel
  num_simulations :: int
  results :: "results_table option"

definition MonteCarloSimulation_init :: "FAIRModel \<Rightarrow> int \<Rightarrow> MonteCarloSimulation" where
  "MonteCarloSimulation_init fm n = \<lparr>fair_model = fm, num_simulations = n, results = None\<rparr>"

text \<open>
  The outcome of a run: the table returned or the exception raised, the simulation
  object as the call leaves it, and the generator state. The three parameter objects
  are those held by the model, so what the sampler assigns to one is visible in
  \<^verbatim>\<open>self.fair_model\<close> afterwards, also when a later step raises.
\<close>

type_synonym 'g run_outcome = "(error + results_table) \<times> MonteCarloSimulation \<times> 'g"

definition store_tef :: "MonteCarloSimulation \<Rightarrow> input_params \<Rightarrow> MonteCarloSimulation" where
  "store_tef self p = self\<lparr>fair_model := (fair_model self)\<lparr>tef := Some p\<rparr>\<rparr>"

definition store_vulnerability :: "MonteCarloSimulation \<Rightarrow> input_params \<Rightarrow> MonteCarloSimulation" where
  "store_vulnerability self p = self\<lparr>fair_model := (fair_model self)\<lparr>vulnerability := Some p\<rparr>\<rparr>"

definition store_loss_magnitude :: "MonteCarloSimulation \<Rightarrow> input_params \<Rightarrow> MonteCarloSimulation" where
  "store_loss_magnitude self p =
     self\<lparr>fair_model := (fair_model self)\<lparr>loss_magnitude := Some p\<rparr>\<rparr>"

definition run_simulation :: "'g numpy_random \<Rightarrow> MonteCarloSimulation \<Rightarrow> 'g \<Rightarrow> 'g run_outcome" where
  "run_simulation np self g =
     (case validate_inputs (fair_model self) of
        Inl e \<Rightarrow> (Inl e, self, g)
      | Inr ok \<Rightarrow>
         (case (tef (fair_model self), vulnerability (fair_model self),
                loss_magnitude (fair_model self)) of
            (Some t, Some v, Some l) \<Rightarrow>
              (case generate_distribution_sample np t (num_simulations self) g of
                 (Inl e, t', g1) \<Rightarrow> (Inl e, store_tef self t', g1)
               | (Inr tef_samples, t', g1) \<Rightarrow>
              (let self = store_tef self t' in
               case generate_distribution_sample np v (num_simulations self) g1 of
                 (Inl e, v', g2) \<Rightarrow> (Inl e, store_vulnerability self v', g2)
               | (Inr vulnerability_samples, v', g2) \<Rightarrow>
              (let self = store_vulnerability self v' in
               case generate_distribution_sample np l (num_simulations self) g2 of
                 (Inl e, l', g3) \<Rightarrow> (Inl e, store_loss_magnitude self l', g3)
               | (Inr loss_magnitude_samples, l', g3) \<Rightarrow>
              (let self = store_loss_magnitude self l' in
               case and_then (np_multiply tef_samples vulnerability_samples) (\<lambda>lef_samples.
                    and_then (np_multiply lef_samples loss_magnitude_samples) (\<lambda>ale_samples.
                    DataFrame tef_samples vulnerability_samples lef_samples
                      loss_magnitude_samples ale_samples)) of
                 Inl e \<Rightarrow> (Inl e, self, g3)
               | Inr df \<Rightarrow> (Inr df, self\<lparr>results := Some df\<rparr>, g3)))))
          | _ \<Rightarrow> (Inl (AttributeError ''NoneType object has no attribute distribution''), self, g)))"

section \<open>Summary statistics (\<^verbatim>\<open>monte_carlo.py\<close>, lines 124-181)\<close>

text \<open>
  The reductions of a \<^verbatim>\<open>pandas.Series\<close> of floats are library code, written out here as
  pandas documents them: every reduction of an empty series is NaN and does not raise,
  the standard deviation is the sample one (\<open>ddof = 1\<close>, NaN below two values), the
  quantile interpolates linearly between order statistics and rejects a level outside
  \<open>[0, 1]\<close> with \<^verbatim>\<open>ValueError\<close>.
\<close>

datatype stat = NaN | Num real

definition pd_min :: "real list \<Rightarrow> stat" where
  "pd_min xs = (if xs = [] then NaN else Num (Min (set xs)))"

definition pd_max :: "real list \<Rightarrow> stat" where
  "pd_max xs = (if xs = [] then NaN else Num (Max (set xs)))"

definition pd_mean :: "real list \<Rightarrow> stat" where
  "pd_mean xs = (if xs = [] then NaN else Num (sum_list xs / real (length xs)))"

definition pd_median :: "real list \<Rightarrow> stat" where
  "pd_median xs =
     (if xs = [] then NaN
      else
        (let s = sort xs; n = length s in
         if odd n then Num (s ! (n div 2))
         else Num ((s ! (n div 2 - 1) + s ! (n div 2)) / 2)))"

definition pd_std :: "real list \<Rightarrow> stat" where
  "pd_std xs =
     (if length xs < 2 then NaN
      else
        (let m = sum_list xs / real (length xs) in
         Num (sqrt (sum_list (map (\<lambda>x. (x - m) ^ 2) xs) / real (length xs - 1)))))"

definition pd_quantile :: "real list \<Rightarrow> real \<Rightarrow> error + stat" where
  "pd_quantile xs q =
     (if q < 0 \<or> 1 < q then
        Inl (ValueError ''percentiles should all be in the interval [0, 1]'')
      else if xs = [] then Inr NaN
      else
        (let s = sort xs;
           pos = q * real (length s - 1);
           lo = nat \<lfloor>pos\<rfloor>;
           hi = min (lo + 1) (length s - 1)
         in Inr (Num (s ! lo + (pos - real lo) * (s ! hi - s ! lo)))))"

definition not_run_yet :: error where
  "not_run_yet = ValueError ''Simulation hasn't been run yet. Call run_simulation() first.''"

definition get_summary_statistics ::
  "MonteCarloSimulation \<Rightarrow> error + (string \<times> (string \<times> stat) list) list" where
  "get_summary_statistics self =
     (case results self of
        None \<Rightarrow> Inl not_run_yet
      | Some df \<Rightarrow>
          and_then (pd_quantile (ALE df) (1 / 10)) (\<lambda>percentile_10.
          and_then (pd_quantile (ALE df) (25 / 100)) (\<lambda>percentile_25.
          and_then (pd_quantile (ALE df) (75 / 100)) (\<lambda>percentile_75.
          and_then (pd_quantile (ALE df) (9 / 10)) (\<lambda>percentile_90.
          and_then (pd_quantile (ALE df) (95 / 100)) (\<lambda>percentile_95.
          and_then (pd_quantile (ALE df) (99 / 100)) (\<lambda>percentile_99.
          Inr [(''ALE'',
                 [(''min'', pd_min (ALE df)),
                  (''max'', pd_max (ALE df)),
                  (''mean'', pd_mean (ALE df)),
                  (''median'', pd_median (ALE df)),
                  (''std'', pd_std (ALE df)),
                  (''percentile_10'', percentile_10),
                  (''percentile_25'', percentile_25),
                  (''percentile_75'', percentile_75),
                  (''percentile_90'', percentile_90),
                  (''percentile_95'', percentile_95),
                  (''percentile_99'', percentile_99)]),
               (''LEF'',
                 [(''min'', pd_min (LEF df)),
                  (''max'', pd_max (LEF df)),
                  (''mean'', pd_mean (LEF df)),
                  (''median'', pd_median (LEF df)),
                  (''std'', pd_std (LEF df))]),
               (''Loss_Magnitude'',
                 [(''min'', pd_min (Loss_Magnitude df)),
                  (''max'', pd_max (Loss_Magnitude df)),
                  (''mean'', pd_mean (Loss_Magnitude df)),
                  (''median'', pd_median (Loss_Magnitude df)),
                  (''std'', pd_std (Loss_Magnitude df))])])))))))"

definition get_value_at_risk :: "MonteCarloSimulation \<Rightarrow> real \<Rightarrow> error + stat" where
  "get_value_at_risk self confidence_level =
     (case results self of
        None \<Rightarrow> Inl not_run_yet
      | Some df \<Rightarrow> pd_quantile (ALE df) confidence_level)"

section \<open>A deterministic generator for evaluating the model\<close>

text \<open>
  An instance of the library parameter on which the model can be run: the generator
  state is a counter, the \<open>k\<close>-th unit draw is \<open>(k mod 10) / 10\<close>, and each sampler checks
  its arguments as NumPy does and maps the unit draws into the distribution's range. It
  stands for the library in the concrete evaluations below; the general theorems are
  about every generator.
\<close>

definition unit_draws :: "int \<Rightarrow> nat \<Rightarrow> real list \<times> nat" where
  "unit_draws n g = (map (\<lambda>k. real ((g + k) mod 10) / 10) [0..<nat n], g + nat n)"

definition draw_with :: "(real \<Rightarrow> real) \<Rightarrow> int \<Rightarrow> nat \<Rightarrow> error + real list \<times> nat" where
  "draw_with f n g =
     (if n < 0 then Inl (ValueError ''negative dimensions are not allowed'')
      else Inr (map f (fst (unit_draws n g)), snd (unit_draws n g)))"

definition counter_random :: "nat numpy_random" where
  "counter_random =
     \<lparr>uniform = (\<lambda>lo hi. draw_with (\<lambda>u. lo + (hi - lo) * u)),
      triangular = (\<lambda>l m r n g.
        if m < l then Inl (ValueError ''left > mode'')
        else if r < m then Inl (ValueError ''mode > right'')
        else if l = r then Inl (ValueError ''left == right'')
        else draw_with (\<lambda>u. l + (r - l) * u) n g),
      beta = (\<lambda>a b n g.
        if a \<le> 0 then Inl (ValueError ''a <= 0'')
        else if b \<le> 0 then Inl (ValueError ''b <= 0'')
        else draw_with (\<lambda>u. a * u / (a + b)) n g),
      lognormal = (\<lambda>mu sigma n g.
        if sigma < 0 then Inl (ValueError ''sigma < 0'')
        else draw_with (\<lambda>u. exp (mu + sigma * (u - 1 / 2))) n g)\<rparr>"

text \<open>Python's \<^verbatim>\<open>w in msg\<close> on strings: \<open>w\<close> occurs in \<open>msg\<close> as a contiguous run.\<close>

fun contains :: "string \<Rightarrow> string \<Rightarrow> bool" where
  "contains [] w = (w = [])"
| "contains (c # cs) w = (take (length w) (c # cs) = w \<or> contains cs w)"

section \<open>Sample scenarios\<close>

text \<open>
  The first sample scenario of \<^verbatim>\<open>utils/data_helpers.py\<close> (\<^verbatim>\<open>load_sample_scenarios\<close>), as
  its constructor calls leave it, and a model with one slot unset and one most-likely
  value unset.
\<close>

definition data_breach :: FAIRModel where
  "data_breach =
     \<lparr>name = ''Data Breach Scenario'',
      description = ''A scenario involving unauthorized access to sensitive customer data'',
      tef = Some \<lparr>min_value = 1 / 2, max_value = 3, most_likely = Some 1,
                  distribution = ''triangular''\<rparr>,
      vulnerability = Some \<lparr>min_value = 2 / 10, max_value = 6 / 10, most_likely = Some (3 / 10),
                            distribution = ''triangular''\<rparr>,
      loss_magnitude = Some \<lparr>min_value = 100000, max_value = 2000000,
                             most_likely = Some 500000, distribution = ''pert''\<rparr>\<rparr>"

definition incomplete_model :: FAIRModel where
  "incomplete_model =
     \<lparr>name = ''Draft'',
      description = ''A scenario with no vulnerability yet'',
      tef = Some \<lparr>min_value = 1 / 2, max_value = 3, most_likely = None,
                  distribution = ''uniform''\<rparr>,
      vulnerability = None,
      loss_magnitude = Some \<lparr>min_value = 100000, max_value = 2000000,
                             most_likely = Some 1050000, distribution = ''pert''\<rparr>\<rparr>"



text \<open>
  A table with no rows, the simulation object that holds it (as a run with a sample
  count of zero leaves it), and the summary whose every entry is NaN.
\<close>

definition empty_table :: results_table where
  "empty_table = \<lparr>TEF = [], Vulnerability = [], LEF = [], Loss_Magnitude = [], ALE = []\<rparr>"

definition zero_run :: MonteCarloSimulation where
  "zero_run = \<lparr>fair_model = data_breach, num_simulations = 0, results = Some empty_table\<rparr>"

definition nan_summary :: "(string \<times> (string \<times> stat) list) list" where
  "nan_summary =
     [(''ALE'',
        [(''min'', NaN), (''max'', NaN), (''mean'', NaN), (''median'', NaN), (''std'', NaN),
         (''percentile_10'', NaN), (''percentile_25'', NaN), (''percentile_75'', NaN),
         (''percentile_90'', NaN), (''percentile_95'', NaN), (''percentile_99'', NaN)]),
      (''LEF'',
        [(''min'', NaN), (''max'', NaN), (''mean'', NaN), (''median'', NaN), (''std'', NaN)]),
      (''Loss_Magnitude'',
        [(''min'', NaN), (''max'', NaN), (''mean'', NaN), (''median'', NaN), (''std'', NaN)])]"

section \<open>Construction: validation and the most-likely default\<close>

lemmas ctor_defs =
  TEFInput_def TEFInput_post_init_def
  VulnerabilityInput_def VulnerabilityInput_post_init_def
  LossInput_def LossInput_post_init_def

text \<open>
  Claim C3. Constructing a risk-factor input raises a validation error exactly when an
  invariant is violated: the maximum below the minimum (any factor), a vulnerability
  minimum or maximum outside \<open>[0, 1]\<close>, or a negative minimum for threat frequency or
  loss magnitude. Nothing is clamped: a construction that does not raise keeps the
  minimum and the maximum it was given.
\<close>

theorem construction_validation:
  "(is_ValueError (TEFInput mn mx ml d) \<longleftrightarrow> mn < 0 \<or> mx < mn) \<and>
   (is_ValueError (LossInput mn mx ml d) \<longleftrightarrow> mn < 0 \<or> mx < mn) \<and>
   (is_ValueError (VulnerabilityInput mn mx ml d) \<longleftrightarrow>
      mn < 0 \<or> 1 < mn \<or> mx < 0 \<or> 1 < mx \<or> mx < mn) \<and>
   (\<forall>C \<in> {TEFInput, LossInput, VulnerabilityInput}.
      (case C mn mx ml d of
         Inl e \<Rightarrow> is_ValueError (C mn mx ml d)
       | Inr s \<Rightarrow> min_value s = mn \<and> max_value s = mx \<and> distribution s = d))"
  by (auto simp: ctor_defs)

theorem construction_validation_witness:
  "is_ValueError (TEFInput 5 2 None ''uniform'') \<and>
   is_ValueError (LossInput (-1) 2 None ''uniform'') \<and>
   is_ValueError (VulnerabilityInput (1/2) (3/2) None ''uniform'') \<and>
   \<not> is_ValueError (VulnerabilityInput (1/5) (3/5) None ''uniform'') \<and>
   (case VulnerabilityInput (1/5) (3/5) None ''uniform'' of
      Inl e \<Rightarrow> False
    | Inr s \<Rightarrow> min_value s = 1/5 \<and> max_value s = 3/5 \<and> distribution s = ''uniform'')"
  using construction_validation [of 5 2 None "''uniform''"]
    construction_validation [of "-1" 2 None "''uniform''"]
    construction_validation [of "1/2" "3/2" None "''uniform''"]
    construction_validation [of "1/5" "3/5" None "''uniform''"]
  by (simp add: ctor_defs)

text \<open>
  Claim C4. A risk-factor input constructed with kind \<open>triangular\<close> or \<open>pert\<close> and no
  most-likely value has, after construction, the midpoint \<open>(min + max) / 2\<close> as its
  most-likely value; with kind \<open>uniform\<close> or \<open>lognormal\<close> an unset most-likely value
  stays unset.
\<close>

theorem most_likely_default:
  assumes "C \<in> {TEFInput, VulnerabilityInput, LossInput}"
    and "C mn mx None d = Inr s"
  shows "(d \<in> {''triangular'', ''pert''} \<longrightarrow> most_likely s = Some ((mn + mx) / 2)) \<and>
         (d \<in> {''uniform'', ''lognormal''} \<longrightarrow> most_likely s = None)"
  using assms by (auto simp: ctor_defs split: if_splits)

theorem most_likely_default_witness:
  "(\<exists>s. TEFInput 2 10 None ''pert'' = Inr s \<and> most_likely s = Some 6) \<and>
   (\<exists>s. VulnerabilityInput (1/5) (3/5) None ''triangular'' = Inr s \<and> most_likely s = Some (2/5)) \<and>
   (\<exists>s. LossInput 2 10 None ''lognormal'' = Inr s \<and> most_likely s = None) \<and>
   (\<exists>s. TEFInput 2 10 None ''uniform'' = Inr s \<and> most_likely s = None)"
proof -
  obtain s1 where s1: "TEFInput 2 10 None ''pert'' = Inr s1"
    by (simp add: ctor_defs)
  obtain s2 where s2: "VulnerabilityInput (1/5) (3/5) None ''triangular'' = Inr s2"
    by (simp add: ctor_defs)
  obtain s3 where s3: "LossInput 2 10 None ''lognormal'' = Inr s3"
    by (simp add: ctor_defs)
  obtain s4 where s4: "TEFInput 2 10 None ''uniform'' = Inr s4"
    by (simp add: ctor_defs)
  from most_likely_default [of TEFInput 2 10 "''pert''" s1] s1
  have "most_likely s1 = Some 6" by simp
  moreover from most_likely_default [of VulnerabilityInput "1/5" "3/5" "''triangular''" s2] s2
  have "most_likely s2 = Some (2/5)" by simp
  moreover from most_likely_default [of LossInput 2 10 "''lognormal''" s3] s3
  have "most_likely s3 = None" by simp
  moreover from most_likely_default [of TEFInput 2 10 "''uniform''" s4] s4
  have "most_likely s4 = None" by simp
  ultimately show ?thesis using s1 s2 s3 s4 by simp
qed

section \<open>Serialisation round trip\<close>

lemma input_round_trip:
  assumes "C (min_value p) (max_value p) (most_likely p) (distribution p) = Inr p"
  shows "input_from_dict C (input_to_dict p) = Inr p"
  using assms
  by (cases "most_likely p") (simp_all add: input_from_dict_def input_to_dict_def and_then_def)

lemma truthy_input_to_dict: "truthy (input_to_dict p)"
  by (simp add: input_to_dict_def)

text \<open>
  Claim C2. For every risk model whose populated slots hold inputs as their constructors
  produce them (any subset of the three slots may be unset), \<^verbatim>\<open>from_dict(to_dict(m))\<close>
  succeeds and gives back \<open>m\<close>: name, description, and for each populated slot its
  minimum, maximum, most-likely value (also when unset) and kind; unset slots stay unset.
\<close>

theorem from_dict_to_dict:
  assumes "well_formed m"
  shows "from_dict (to_dict m) = Inr m"
proof -
  have t: "tef m = Some p \<Longrightarrow> input_from_dict TEFInput (input_to_dict p) = Inr p" for p
    using assms by (intro input_round_trip) (simp add: well_formed_def constructed_def)
  have v: "vulnerability m = Some p \<Longrightarrow>
      input_from_dict VulnerabilityInput (input_to_dict p) = Inr p" for p
    using assms by (intro input_round_trip) (simp add: well_formed_def constructed_def)
  have l: "loss_magnitude m = Some p \<Longrightarrow> input_from_dict LossInput (input_to_dict p) = Inr p" for p
    using assms by (intro input_round_trip) (simp add: well_formed_def constructed_def)
  show ?thesis
    by (cases "tef m"; cases "vulnerability m"; cases "loss_magnitude m")
      (simp_all add: from_dict_def to_dict_def and_then_def truthy_input_to_dict t v l
        FAIRModel_init_def set_threat_event_frequency_def set_vulnerability_def
        set_loss_magnitude_def)
qed

theorem from_dict_to_dict_witness:
  "well_formed data_breach \<and> from_dict (to_dict data_breach) = Inr data_breach \<and>
   well_formed incomplete_model \<and> from_dict (to_dict incomplete_model) = Inr incomplete_model \<and>
   vulnerability incomplete_model = None"
proof -
  have a: "well_formed data_breach"
    by (simp add: well_formed_def constructed_def data_breach_def ctor_defs)
  have b: "well_formed incomplete_model"
    by (simp add: well_formed_def constructed_def incomplete_model_def ctor_defs)
  show ?thesis
    using a b from_dict_to_dict [OF a] from_dict_to_dict [OF b]
    by (simp add: incomplete_model_def)
qed

text \<open>Every input a constructor returns satisfies the hypothesis of the round trip.\<close>

lemma constructor_constructed:
  assumes "C \<in> {TEFInput, VulnerabilityInput, LossInput}" and "C mn mx ml d = Inr p"
  shows "constructed C (Some p)"
  using assms by (auto simp: constructed_def ctor_defs split: if_splits)

section \<open>The sampler returns, and the simulation builds its table\<close>


lemma constant_sample_sized:
  "0 \<le> n \<Longrightarrow> constant_sample n c = Inr (replicate (nat n) c)"
  by (simp add: constant_sample_def np_ones_def and_then_def map_replicate)

lemma drawn_sized:
  assumes "returns_sized f" "0 \<le> n"
  shows "\<exists>xs g'. drawn p g (f n g) = (Inr xs, p, g') \<and> length xs = nat n"
  using assms unfolding returns_sized_def drawn_def by (metis (mono_tags, lifting) old.prod.case sum.simps(6))







lemma lower_triangular: "lower ''triangular'' = ''triangular''"
  by (simp add: lower_def lower_char_def ascii_uppercase_def ascii_lowercase_def)

lemma lower_pert: "lower ''pert'' = ''pert''"
  by (simp add: lower_def lower_char_def ascii_uppercase_def ascii_lowercase_def)



section \<open>What a sampling call changes\<close>

lemma drawn_param: "fst (snd (drawn q g r)) = q"
  by (simp add: drawn_def split: sum.split prod.split)

lemma pert_sample_param:
  "fst (snd (pert_sample np p n g)) =
     (if most_likely p = None
      then p\<lparr>most_likely := Some ((min_value p + max_value p) / 2)\<rparr> else p)"
  by (cases "most_likely p") (simp_all add: pert_sample_def Let_def drawn_param)



lemma lower_uniform: "lower ''uniform'' = ''uniform''"
  by (simp add: lower_def lower_char_def ascii_uppercase_def ascii_lowercase_def)

lemma lower_PERT: "lower ''PERT'' = ''pert''"
  by (simp add: lower_def lower_char_def ascii_uppercase_def ascii_lowercase_def)

lemma lower_weibull: "lower ''Weibull'' = ''weibull''"
  by (simp add: lower_def lower_char_def ascii_uppercase_def ascii_lowercase_def)

lemma sample_param:
  "fst (snd (generate_distribution_sample np p n g)) =
     (if lower (distribution p) = ''pert'' \<and> most_likely p = None
      then p\<lparr>most_likely := Some ((min_value p + max_value p) / 2)\<rparr> else p)"
  by (simp add: generate_distribution_sample_def Let_def drawn_param pert_sample_param
      split: option.split)


text \<open>
  The hypothesis of the round trip is an invariant of the engine: a sampling call turns
  an input its constructor produces into one its constructor produces.
\<close>

lemma sample_keeps_constructed:
  assumes "C = TEFInput \<or> C = VulnerabilityInput \<or> C = LossInput"
    and "constructed C (Some p)"
  shows "constructed C (Some (fst (snd (generate_distribution_sample np p n g))))"
proof (cases "lower (distribution p) = ''pert'' \<and> most_likely p = None")
  case False
  then show ?thesis using assms(2) by (auto simp: sample_param)
next
  case True
  then have q: "fst (snd (generate_distribution_sample np p n g)) =
      p\<lparr>most_likely := Some ((min_value p + max_value p) / 2)\<rparr>"
    by (simp add: sample_param)
  from assms show ?thesis
    unfolding q by (auto simp: constructed_def ctor_defs split: if_splits)
qed

text \<open>
  Claim C5. PERT sampling with a non-negative sample count \<open>n\<close>: if
  \<open>max_value - min_value = 0\<close>, every one of the \<open>n\<close> draws is \<open>min_value\<close>; otherwise, with
  \<open>mu = (min + 4 * most_likely + max) / 6\<close> (an unset most-likely value having been filled
  in with the midpoint), if \<open>mu\<close> is \<open>min_value\<close> or \<open>max_value\<close> every draw is \<open>mu\<close>. In
  both cases the library is not called: the result is the same for every generator and
  the generator state is left as it was.
\<close>

theorem pert_short_circuit:
  assumes "lower (distribution p) = ''pert''" and "0 \<le> n"
  shows "(let ml = (case most_likely p of None \<Rightarrow> (min_value p + max_value p) / 2 | Some m \<Rightarrow> m);
              mu = (min_value p + 4 * ml + max_value p) / 6;
              out = generate_distribution_sample np p n g
          in (max_value p - min_value p = 0 \<longrightarrow>
                fst out = Inr (replicate (nat n) (min_value p)) \<and> snd (snd out) = g) \<and>
             (max_value p - min_value p \<noteq> 0 \<and> (mu = min_value p \<or> mu = max_value p) \<longrightarrow>
                fst out = Inr (replicate (nat n) mu) \<and> snd (snd out) = g))"
proof (cases "most_likely p")
  case None
  then show ?thesis using assms
    by (simp add: generate_distribution_sample_def pert_sample_def Let_def
        constant_sample_sized)
next
  case (Some m)
  then show ?thesis using assms
    by (simp add: generate_distribution_sample_def pert_sample_def Let_def
        constant_sample_sized)
qed

theorem pert_short_circuit_witness:
  "fst (generate_distribution_sample counter_random
      \<lparr>min_value = 7, max_value = 7, most_likely = Some 7, distribution = ''pert''\<rparr> 3 0)
     = Inr [7, 7, 7] \<and>
   fst (generate_distribution_sample counter_random
      \<lparr>min_value = 0, max_value = 4, most_likely = Some (-1), distribution = ''pert''\<rparr> 3 0)
     = Inr [0, 0, 0]"
  using pert_short_circuit [of "\<lparr>min_value = 7, max_value = 7, most_likely = Some 7,
      distribution = ''pert''\<rparr>" 3 counter_random 0]
    pert_short_circuit [of "\<lparr>min_value = 0, max_value = 4, most_likely = Some (-1),
      distribution = ''pert''\<rparr>" 3 counter_random 0]
  by (simp add: lower_pert Let_def numeral_3_eq_3)

section \<open>Frame of a sampling call\<close>

text \<open>
  Claim C6, as the code has it. A sampling call leaves \<^verbatim>\<open>min_value\<close>, \<^verbatim>\<open>max_value\<close> and
  \<^verbatim>\<open>distribution\<close> of its parameter object unchanged, whatever the object, the sample count
  and the outcome. \<^verbatim>\<open>most_likely\<close> is unchanged too, except when the lower-cased kind is
  \<open>pert\<close> and \<^verbatim>\<open>most_likely\<close> is unset: then the call assigns the midpoint
  \<open>(min_value + max_value) / 2\<close> to it. The only other state a call touches is the
  generator's.
\<close>

theorem sampling_frame:
  "(let p' = fst (snd (generate_distribution_sample np p n g)) in
     min_value p' = min_value p \<and> max_value p' = max_value p \<and>
     distribution p' = distribution p \<and>
     most_likely p' =
       (if lower (distribution p) = ''pert'' \<and> most_likely p = None
        then Some ((min_value p + max_value p) / 2) else most_likely p))"
  by (simp add: sample_param)

theorem sampling_frame_witness:
  "(let p = \<lparr>min_value = 100000, max_value = 2000000, most_likely = Some 500000,
             distribution = ''pert''\<rparr>;
        p' = fst (snd (generate_distribution_sample counter_random p 3 0))
    in p' = p)"
  using sampling_frame [of counter_random "\<lparr>min_value = 100000, max_value = 2000000,
    most_likely = Some 500000, distribution = ''pert''\<rparr>" 3 0]
  by (simp add: Let_def)

text \<open>
  The claim as written (all four fields unchanged by every sampling call) fails: the
  threat-frequency input \<^verbatim>\<open>TEFInput(5, 5, None, "PERT")\<close> is constructed with
  \<^verbatim>\<open>most_likely\<close> unset, since the constructor compares the kind case-sensitively, and
  comes back from the sampler with \<^verbatim>\<open>most_likely = 5\<close>.
\<close>

theorem sampling_sets_most_likely:
  "TEFInput 5 5 None ''PERT'' =
     Inr \<lparr>min_value = 5, max_value = 5, most_likely = None, distribution = ''PERT''\<rparr> \<and>
   generate_distribution_sample counter_random
     \<lparr>min_value = 5, max_value = 5, most_likely = None, distribution = ''PERT''\<rparr> 3 0 =
     (Inr [5, 5, 5],
      \<lparr>min_value = 5, max_value = 5, most_likely = Some 5, distribution = ''PERT''\<rparr>, 0)"
  by (simp add: ctor_defs generate_distribution_sample_def lower_PERT pert_sample_def
      constant_sample_def np_ones_def and_then_def numeral_3_eq_3)

section \<open>Dispatch on the kind\<close>

text \<open>
  Claim C7. Sampling an input whose kind, lower-cased, is none of \<open>uniform\<close>,
  \<open>triangular\<close>, \<open>pert\<close>, \<open>lognormal\<close> is the library's uniform draw on
  \<open>[min_value, max_value]\<close>, the same call the \<open>uniform\<close> branch makes with the same
  generator state, and the parameter object is left as it was. It does not fail: with a
  library that honours its contract and a non-negative sample count it returns exactly
  \<open>n\<close> values.
\<close>

theorem unrecognized_kind_uniform:
  assumes "lower (distribution p) \<notin> {''uniform'', ''triangular'', ''pert'', ''lognormal''}"
  shows "generate_distribution_sample np p n g =
           drawn p g (uniform np (min_value p) (max_value p) n g) \<and>
         generate_distribution_sample np (p\<lparr>distribution := ''uniform''\<rparr>) n g =
           drawn (p\<lparr>distribution := ''uniform''\<rparr>) g
             (uniform np (min_value p) (max_value p) n g) \<and>
         (numpy_contract np \<and> 0 \<le> n \<longrightarrow>
            (\<exists>xs g'. generate_distribution_sample np p n g = (Inr xs, p, g') \<and>
                      length xs = nat n))"
proof -
  have a: "generate_distribution_sample np p n g =
           drawn p g (uniform np (min_value p) (max_value p) n g)"
    using assms by (simp add: generate_distribution_sample_def)
  have b: "generate_distribution_sample np (p\<lparr>distribution := ''uniform''\<rparr>) n g =
           drawn (p\<lparr>distribution := ''uniform''\<rparr>) g
             (uniform np (min_value p) (max_value p) n g)"
    by (simp add: generate_distribution_sample_def lower_uniform)
  have c: "\<exists>xs g'. generate_distribution_sample np p n g = (Inr xs, p, g') \<and> length xs = nat n"
    if "numpy_contract np" "0 \<le> n"
  proof -
    have "returns_sized (uniform np (min_value p) (max_value p))"
      using that by (simp add: numpy_contract_def)
    from drawn_sized [OF this that(2), of p g] show ?thesis unfolding a .
  qed
  show ?thesis using a b c by blast
qed

theorem unrecognized_kind_uniform_witness:
  "lower ''Weibull'' \<notin> {''uniform'', ''triangular'', ''pert'', ''lognormal''} \<and>
   generate_distribution_sample counter_random
     \<lparr>min_value = 1 / 2, max_value = 3, most_likely = None, distribution = ''Weibull''\<rparr> 3 0 =
     (Inr [1 / 2, 3 / 4, 1],
      \<lparr>min_value = 1 / 2, max_value = 3, most_likely = None, distribution = ''Weibull''\<rparr>, 3) \<and>
   generate_distribution_sample counter_random
     \<lparr>min_value = 1 / 2, max_value = 3, most_likely = None, distribution = ''uniform''\<rparr> 3 0 =
     (Inr [1 / 2, 3 / 4, 1],
      \<lparr>min_value = 1 / 2, max_value = 3, most_likely = None, distribution = ''uniform''\<rparr>, 3)"
proof -
  have k: "lower ''Weibull'' \<notin> {''uniform'', ''triangular'', ''pert'', ''lognormal''}"
    by (simp add: lower_weibull)
  have u: "uniform counter_random (1 / 2) 3 3 0 = Inr ([1 / 2, 3 / 4, 1], 3)"
    by (simp add: counter_random_def draw_with_def unit_draws_def upt_conv_Cons numeral_3_eq_3)
  from unrecognized_kind_uniform [of "\<lparr>min_value = 1 / 2, max_value = 3, most_likely = None,
      distribution = ''Weibull''\<rparr>" counter_random 3 0]
  show ?thesis using k u by (simp add: drawn_def)
qed



section \<open>Incomplete models\<close>

text \<open>
  Claim C8, as the code has it. Validation succeeds exactly when all three slots are
  populated. On a model with a slot unset \<^verbatim>\<open>run_simulation\<close> raises \<^verbatim>\<open>ValueError\<close> naming
  the first unset slot in the order threat event frequency, vulnerability, loss
  magnitude (that one only, also when several are unset); it draws nothing and leaves
  the simulation object as it was, so no results table is stored.
\<close>

theorem validation_gate:
  "(validate_inputs m = Inr True \<longleftrightarrow>
      tef m \<noteq> None \<and> vulnerability m \<noteq> None \<and> loss_magnitude m \<noteq> None) \<and>
   (tef (fair_model self) = None \<longrightarrow>
      run_simulation np self g = (Inl (ValueError ''Threat Event Frequency not set''), self, g)) \<and>
   (tef (fair_model self) \<noteq> None \<and> vulnerability (fair_model self) = None \<longrightarrow>
      run_simulation np self g = (Inl (ValueError ''Vulnerability not set''), self, g)) \<and>
   (tef (fair_model self) \<noteq> None \<and> vulnerability (fair_model self) \<noteq> None \<and>
    loss_magnitude (fair_model self) = None \<longrightarrow>
      run_simulation np self g = (Inl (ValueError ''Loss Magnitude not set''), self, g))"
  by (auto simp: validate_inputs_def run_simulation_def)

theorem validation_gate_witness:
  "vulnerability incomplete_model = None \<and>
   run_simulation counter_random (MonteCarloSimulation_init incomplete_model 1000) 0 =
     (Inl (ValueError ''Vulnerability not set''),
      MonteCarloSimulation_init incomplete_model 1000, 0) \<and>
   results (MonteCarloSimulation_init incomplete_model 1000) = None \<and>
   validate_inputs data_breach = Inr True \<and>
   validate_inputs incomplete_model \<noteq> Inr True"
  using validation_gate [of incomplete_model "MonteCarloSimulation_init incomplete_model 1000"
      counter_random 0]
    validation_gate [of data_breach "MonteCarloSimulation_init data_breach 1000" counter_random 0]
  by (simp add: incomplete_model_def data_breach_def MonteCarloSimulation_init_def)

text \<open>
  The claim as written (the error identifies which slots are missing) fails on a model
  with more than one slot unset: on a freshly created model the message is
  \<open>Threat Event Frequency not set\<close>, which does not mention the vulnerability that is
  unset as well.
\<close>

theorem first_missing_slot_only:
  "vulnerability (FAIRModel_init ''Draft'' ''No factor set yet'') = None \<and>
   fst (run_simulation counter_random
     (MonteCarloSimulation_init (FAIRModel_init ''Draft'' ''No factor set yet'') 1000) 0) =
     Inl (ValueError ''Threat Event Frequency not set'') \<and>
   \<not> contains ''Threat Event Frequency not set'' ''Vulnerability''"
  by (simp add: run_simulation_def validate_inputs_def FAIRModel_init_def
      MonteCarloSimulation_init_def)

section \<open>Statistics before a run and on an empty table\<close>

lemma pd_quantile_level:
  "0 \<le> q \<Longrightarrow> q \<le> 1 \<Longrightarrow> \<exists>s. pd_quantile xs q = Inr s"
  by (simp add: pd_quantile_def Let_def)

lemma pd_quantile_empty: "0 \<le> q \<Longrightarrow> q \<le> 1 \<Longrightarrow> pd_quantile [] q = Inr NaN"
  by (simp add: pd_quantile_def)

lemma summary_returns:
  assumes "results self = Some df"
  shows "\<exists>d. get_summary_statistics self = Inr d"
proof -
  obtain a where a: "pd_quantile (ALE df) (1 / 10) = Inr a"
    using pd_quantile_level [of "1 / 10"] by auto
  obtain b where b: "pd_quantile (ALE df) (25 / 100) = Inr b"
    using pd_quantile_level [of "25 / 100"] by auto
  obtain c where c: "pd_quantile (ALE df) (75 / 100) = Inr c"
    using pd_quantile_level [of "75 / 100"] by auto
  obtain d where d: "pd_quantile (ALE df) (9 / 10) = Inr d"
    using pd_quantile_level [of "9 / 10"] by auto
  obtain e where e: "pd_quantile (ALE df) (95 / 100) = Inr e"
    using pd_quantile_level [of "95 / 100"] by auto
  obtain f where f: "pd_quantile (ALE df) (99 / 100) = Inr f"
    using pd_quantile_level [of "99 / 100"] by auto
  show ?thesis
    using assms a b c d e f by (simp add: get_summary_statistics_def and_then_def)
qed

lemma summary_empty:
  assumes "results self = Some df" "ALE df = []" "LEF df = []" "Loss_Magnitude df = []"
  shows "get_summary_statistics self = Inr nan_summary"
  using assms
  by (simp add: get_summary_statistics_def and_then_def pd_quantile_empty nan_summary_def
      pd_min_def pd_max_def pd_mean_def pd_median_def pd_std_def)

text \<open>
  Claim C9, as the code has it. Summary statistics and value-at-risk requested before
  any run raise the usage error (\<^verbatim>\<open>ValueError\<close>, "Simulation hasn't been run yet"). Once a
  table is stored the engine itself raises nothing, whatever its number of rows:
  value-at-risk is the library's quantile of the \<open>ALE\<close> column and the summary is
  returned. On a table with zero rows every entry of the summary is NaN, and so is the
  value-at-risk at a level in \<open>[0, 1]\<close>.
\<close>

theorem statistics_usage_error:
  "(results self = None \<longrightarrow>
      get_summary_statistics self = Inl not_run_yet \<and>
      get_value_at_risk self c = Inl not_run_yet) \<and>
   (\<forall>df. results self = Some df \<longrightarrow>
      get_value_at_risk self c = pd_quantile (ALE df) c \<and>
      (\<exists>d. get_summary_statistics self = Inr d)) \<and>
   (\<forall>df. results self = Some df \<and> ALE df = [] \<and> LEF df = [] \<and> Loss_Magnitude df = [] \<longrightarrow>
      get_summary_statistics self = Inr nan_summary \<and>
      (0 \<le> c \<and> c \<le> 1 \<longrightarrow> get_value_at_risk self c = Inr NaN))"
proof -
  have a: "get_summary_statistics self = Inl not_run_yet \<and>
      get_value_at_risk self c = Inl not_run_yet" if "results self = None"
    using that by (simp add: get_summary_statistics_def get_value_at_risk_def)
  have b: "get_value_at_risk self c = pd_quantile (ALE df) c" if "results self = Some df" for df
    using that by (simp add: get_value_at_risk_def)
  have e: "get_value_at_risk self c = Inr NaN"
    if "results self = Some df" "ALE df = []" "0 \<le> c" "c \<le> 1" for df
    using that by (simp add: get_value_at_risk_def pd_quantile_empty)
  show ?thesis
    using a b e summary_returns summary_empty by blast
qed

theorem statistics_usage_error_witness:
  "get_summary_statistics (MonteCarloSimulation_init data_breach 1000) = Inl not_run_yet \<and>
   get_value_at_risk (MonteCarloSimulation_init data_breach 1000) (95 / 100) = Inl not_run_yet \<and>
   results zero_run = Some empty_table \<and>
   get_summary_statistics zero_run = Inr nan_summary \<and>
   get_value_at_risk zero_run (95 / 100) = Inr NaN"
  using statistics_usage_error [of "MonteCarloSimulation_init data_breach 1000" "95 / 100"]
    statistics_usage_error [of zero_run "95 / 100"]
  by (simp add: MonteCarloSimulation_init_def zero_run_def empty_table_def pd_quantile_def)

text \<open>
  The claim as written (a usage error on a table with zero rows) fails: a run with a
  sample count of zero stores a table with no rows, and both requests then return NaN
  values instead of raising.
\<close>

theorem zero_rows_no_error:
  "run_simulation counter_random (MonteCarloSimulation_init data_breach 0) 0 =
     (Inr empty_table, zero_run, 0) \<and>
   n_rows empty_table = 0 \<and>
   get_value_at_risk zero_run (95 / 100) = Inr NaN \<and>
   get_summary_statistics zero_run = Inr nan_summary"
proof -
  have t: "generate_distribution_sample counter_random
      \<lparr>min_value = 1 / 2, max_value = 3, most_likely = Some 1, distribution = ''triangular''\<rparr> 0 0 =
      (Inr [], \<lparr>min_value = 1 / 2, max_value = 3, most_likely = Some 1,
        distribution = ''triangular''\<rparr>, 0)"
    by (simp add: generate_distribution_sample_def lower_triangular counter_random_def
        draw_with_def unit_draws_def drawn_def)
  have v: "generate_distribution_sample counter_random
      \<lparr>min_value = 2 / 10, max_value = 6 / 10, most_likely = Some (3 / 10),
        distribution = ''triangular''\<rparr> 0 0 =
      (Inr [], \<lparr>min_value = 2 / 10, max_value = 6 / 10, most_likely = Some (3 / 10),
        distribution = ''triangular''\<rparr>, 0)"
    by (simp add: generate_distribution_sample_def lower_triangular counter_random_def
        draw_with_def unit_draws_def drawn_def)
  have l: "generate_distribution_sample counter_random
      \<lparr>min_value = 100000, max_value = 2000000, most_likely = Some 500000,
        distribution = ''pert''\<rparr> 0 0 =
      (Inr [], \<lparr>min_value = 100000, max_value = 2000000, most_likely = Some 500000,
        distribution = ''pert''\<rparr>, 0)"
    by (simp add: generate_distribution_sample_def lower_pert pert_sample_def Let_def
        counter_random_def draw_with_def unit_draws_def drawn_def and_then_def)
  have r: "run_simulation counter_random (MonteCarloSimulation_init data_breach 0) 0 =
     (Inr empty_table, zero_run, 0)"
    using t v l
    by (simp add: run_simulation_def validate_inputs_def MonteCarloSimulation_init_def
        data_breach_def store_tef_def store_vulnerability_def store_loss_magnitude_def
        np_multiply_def DataFrame_def and_then_def empty_table_def zero_run_def Let_def)
  have s: "get_summary_statistics zero_run = Inr nan_summary"
    by (simp add: get_summary_statistics_def zero_run_def empty_table_def and_then_def
        pd_quantile_def nan_summary_def pd_min_def pd_max_def pd_mean_def pd_median_def
        pd_std_def)
  have q: "get_value_at_risk zero_run (95 / 100) = Inr NaN"
    by (simp add: get_value_at_risk_def zero_run_def empty_table_def pd_quantile_def)
  show ?thesis using r s q by (simp add: n_rows_def empty_table_def)
qed

end
